theory Spec2Isabelle
  imports Main "HOL-Library.Word" "HOL-Library.Sublist"
begin

section \<open>The data of p9sk1.c\<close>

text \<open>
  Byte buffers (\<^verbatim>\<open>char x[N]\<close>, \<^verbatim>\<open>void *a\<close>) are lists of 8-bit words; the C strings
  held in attributes and identity fields are \<^typ>\<open>string\<close>s. The structures \<^verbatim>\<open>Ticketreq\<close>,
  \<^verbatim>\<open>Ticket\<close>, \<^verbatim>\<open>Authenticator\<close>, \<^verbatim>\<open>Key\<close>, \<^verbatim>\<open>Keyinfo\<close>, \<^verbatim>\<open>AuthInfo\<close> and \<^verbatim>\<open>Fsstate\<close> are
  declared in \<^verbatim>\<open>dat.h\<close>, which is not part of the source at hand: the records below carry
  the fields that p9sk1.c reads or writes (and the ones section 3 of the specification
  lists), with a prefix where two structures use the same field name.
\<close>

type_synonym bytes = "8 word list"

type_synonym attrs = "(string \<times> string) list"

text \<open>
  Modelled from the spec: the message tags \<^verbatim>\<open>AuthTreq\<close>, \<^verbatim>\<open>AuthAc\<close>, \<^verbatim>\<open>AuthAs\<close> come from the
  missing header. Section 3 names a type tag "ticket request" and two purpose codes,
  client-asserting and server-asserting; any other value a tag field may hold (the
  allocator's fill, a value read off the wire) is \<open>AuthTag n\<close>.
\<close>

datatype msgtag = AuthTreq | AuthAc | AuthAs | AuthTag nat

record Ticketreq =
  tr_type :: msgtag
  tr_authid :: string
  tr_authdom :: string
  tr_chal :: bytes
  tr_hostid :: string
  tr_uid :: string

record Ticket =
  t_num :: msgtag
  t_chal :: bytes
  t_cuid :: string
  t_suid :: string
  t_key :: bytes

record Authenticator =
  a_num :: msgtag
  a_chal :: bytes

record Key =
  key_attr :: attrs
  priv :: bytes

record Keyinfo =
  ki_user :: "string option"
  ki_attr :: attrs

text \<open>\<^verbatim>\<open>struct State\<close>, field by field (\<open>s->vers\<close> is \<open>s_vers s\<close>); a nil pointer is \<open>None\<close>.\<close>

record State =
  s_vers :: int
  s_key :: "Key option"
  s_t :: Ticket
  s_tr :: Ticketreq
  s_cchal :: bytes
  s_tbuf :: bytes
  s_authkey :: bytes
  s_secret :: "bytes option"
  s_speakfor :: int

text \<open>
  The phases of the anonymous enum. \<^verbatim>\<open>Established\<close> is a constant of the missing header,
  outside the enum's range \<open>0 .. Maxphase - 1\<close>; it is a constructor of its own here.
\<close>

datatype phase =
  CHaveChal | CNeedTreq | CHaveTicket | CNeedAuth
| SNeedChal | SHaveTreq | SNeedTicket | SHaveAuth
| Established

definition Maxphase :: nat where
  "Maxphase = 8"

definition phasenames :: "string list" where
  "phasenames =
     [''CHaveChal'', ''CNeedTreq'', ''CHaveTicket'', ''CNeedAuth'',
      ''SNeedChal'', ''SHaveTreq'', ''SNeedTicket'', ''SHaveAuth'']"

record AuthInfo =
  ai_cuid :: string
  ai_suid :: string
  ai_secret :: "bytes option"
  ai_nsecret :: nat

text \<open>
  \<^verbatim>\<open>Fsstate\<close>: the fields p9sk1.c touches. \<open>ps\<close> is the \<^verbatim>\<open>State\<close> block that \<^verbatim>\<open>fss->ps\<close> points
  to; \<open>ai_secret\<close> and \<open>s_secret\<close> are the same pointer in C and hold the same bytes here.
\<close>

record Fsstate =
  phase :: phase
  attr :: attrs
  ai :: AuthInfo
  haveai :: int
  ps :: State
  phasename :: "string list"
  maxphase :: nat

text \<open>The process-wide staging variables \<^verbatim>\<open>auth\<close>, \<^verbatim>\<open>trbuf\<close> and \<^verbatim>\<open>tbuf\<close> that \<^verbatim>\<open>p9skwrite\<close> uses.\<close>

record Globals =
  auth :: Authenticator
  trbuf :: bytes
  tbuf :: bytes

text \<open>The two protocol tables; any other \<^verbatim>\<open>Proto *\<close> makes \<^verbatim>\<open>p9skinit\<close> call \<^verbatim>\<open>abort()\<close>.\<close>

datatype Proto = P9sk1 | P9sk2 | OtherProto

definition keyprompt :: "Proto \<Rightarrow> string" where
  "keyprompt p = (if p = P9sk1 then ''user? !password?'' else [])"

text \<open>
  What an operation returns. \<open>RpcOk\<close> is the source's; \<open>Failure\<close>, \<open>PhaseError\<close> and
  \<open>BufferTooSmallError\<close> are the results of the helpers \<^verbatim>\<open>failure\<close>, \<^verbatim>\<open>phaseerror\<close> and
  \<^verbatim>\<open>toosmall\<close> (below); \<open>RpcCode c\<close> is any other code \<^verbatim>\<open>findkey\<close> may hand back;
  \<open>Fault\<close> stands for the process dying (\<^verbatim>\<open>abort()\<close>, or a nil pointer dereferenced).
\<close>

datatype rpc = RpcOk | Failure | PhaseError | BufferTooSmallError nat | RpcCode int | Fault

section \<open>The collaborators\<close>

text \<open>
  Everything p9sk1.c calls but does not define is a parameter: the protocol's four size
  constants, the attribute and key-store functions, the codec and the ticket service.
  A function that fills a caller's structure returns the structure; one that writes into
  a caller's buffer returns the bytes it writes.
\<close>

record env =
  CHALLEN :: nat
  TICKREQLEN :: nat
  TICKETLEN :: nat
  AUTHENTLEN :: nat
  isclient :: "string option \<Rightarrow> int"
  strfindattr :: "attrs \<Rightarrow> string \<Rightarrow> string option"
  copyattr :: "attrs \<Rightarrow> attrs"
  setattr :: "attrs \<Rightarrow> string \<Rightarrow> attrs"
  delattr :: "attrs \<Rightarrow> string \<Rightarrow> attrs"
  mkkeyinfo :: "Fsstate \<Rightarrow> attrs \<Rightarrow> Keyinfo"
  findkey :: "Keyinfo \<Rightarrow> string \<Rightarrow> string list \<Rightarrow> rpc \<times> Key option"
  safecpy :: "string \<Rightarrow> string option \<Rightarrow> nat \<Rightarrow> string"
  ticketservice :: "Ticketreq \<Rightarrow> Key \<Rightarrow> bytes option"
  convTR2M :: "Ticketreq \<Rightarrow> bytes"
  convM2TR :: "bytes \<Rightarrow> Ticketreq"
  convM2T :: "bytes \<Rightarrow> bytes \<Rightarrow> Ticket"
  convA2M :: "Authenticator \<Rightarrow> bytes \<Rightarrow> bytes"
  convM2A :: "bytes \<Rightarrow> bytes \<Rightarrow> Authenticator"
  des56to64 :: "bytes \<Rightarrow> bytes"

text \<open>
  \<^verbatim>\<open>memmove(dst + off, src, m)\<close> on buffers that are long enough: \<open>m\<close> bytes of \<open>src\<close> replace
  the bytes \<open>off ..< off + m\<close> of \<open>dst\<close>. (Past the end of either buffer C has no defined
  behaviour; the list operations truncate there.)
\<close>

definition memmove :: "bytes \<Rightarrow> nat \<Rightarrow> bytes \<Rightarrow> nat \<Rightarrow> bytes" where
  "memmove dst off src m = take off dst @ take m src @ drop (off + m) dst"

text \<open>
  Modelled from the spec: \<^verbatim>\<open>phaseerror\<close>, \<^verbatim>\<open>toosmall\<close> and \<^verbatim>\<open>failure\<close> are helpers of the
  missing part of the program. Section 7: a PhaseError is returned for an operation the
  phase does not support; a BufferTooSmallError carries the exact required size; every
  other failure is surfaced to the caller. Section 8: an error leaves the phase as it is.
\<close>

definition phaseerror :: "Fsstate \<Rightarrow> string \<Rightarrow> rpc \<times> Fsstate" where
  "phaseerror fss opname = (PhaseError, fss)"

definition toosmall :: "Fsstate \<Rightarrow> nat \<Rightarrow> rpc \<times> Fsstate" where
  "toosmall fss m = (BufferTooSmallError m, fss)"

definition failure :: "Fsstate \<Rightarrow> rpc \<times> Fsstate" where
  "failure fss = (Failure, fss)"

text \<open>
  Modelled from the spec: \<^verbatim>\<open>gettickets\<close> is declared in p9sk1.c and defined nowhere in it.
  Section 4.5: given a ticket request and the initiator's own key, it produces a buffer
  holding the pair issued by the ticket service, or fails. A negative result is failure;
  the issued bytes are left in \<^verbatim>\<open>tbuf\<close>.
\<close>

definition gettickets :: "env \<Rightarrow> State \<Rightarrow> bytes \<Rightarrow> bytes \<Rightarrow> int \<times> bytes \<times> bytes" where
  "gettickets e s trb tb =
     (case s_key s of
        None \<Rightarrow> (- 1, trb, tb)
      | Some k \<Rightarrow>
          (case ticketservice e (s_tr s) k of
             None \<Rightarrow> (- 1, trb, tb)
           | Some issued \<Rightarrow> (0, trb, issued)))"

section \<open>The four operations\<close>

text \<open>
  \<^verbatim>\<open>p9skinit\<close>. \<open>s0\<close> is the block \<^verbatim>\<open>emalloc\<close> returns and \<open>rnd\<close> the bytes \<^verbatim>\<open>memrandom\<close> produces
  in this call. \<^verbatim>\<open>sizeof\<close> of an array field is the length of the list that holds it.
  On the key-lookup failure the fresh block is freed and never published.
\<close>

definition p9skinit :: "env \<Rightarrow> Proto \<Rightarrow> Fsstate \<Rightarrow> State \<Rightarrow> bytes \<Rightarrow> rpc \<times> Fsstate" where
  "p9skinit e p fss s0 rnd =
     (let iscli = isclient e (strfindattr e (attr fss) ''role'') in
      if iscli < 0 then failure fss
      else
        let fss1 = fss\<lparr>phasename := phasenames, maxphase := Maxphase\<rparr> in
        if p = OtherProto then (Fault, fss1)
        else
          let s1 = s0\<lparr>s_vers := (if p = P9sk1 then 1 else 2)\<rparr> in
          if iscli \<noteq> 0 then
            (if s_vers s1 = 1 then
               (RpcOk, fss1\<lparr>phase := CHaveChal,
                            ps := s1\<lparr>s_cchal := memmove (s_cchal s1) 0 rnd (CHALLEN e)\<rparr>\<rparr>)
             else if s_vers s1 = 2 then
               (RpcOk, fss1\<lparr>phase := CNeedTreq, ps := s1\<rparr>)
             else (RpcOk, fss1\<lparr>ps := s1\<rparr>))
          else
            let s2 = s1\<lparr>s_tr := (s_tr s1)\<lparr>tr_type := AuthTreq\<rparr>\<rparr>;
                at = setattr e (copyattr e (attr fss1)) ''proto=p9sk1'';
                ki = (mkkeyinfo e fss1 at)\<lparr>ki_user := None\<rparr>;
                found = findkey e ki ''user? dom?'' []
            in
            if fst found \<noteq> RpcOk then (fst found, fss1)
            else
              (case snd found of
                 None \<Rightarrow> (Fault, fss1)
               | Some k \<Rightarrow>
                   let tr1 = (s_tr s2)\<lparr>tr_authid :=
                               safecpy e (tr_authid (s_tr s2)) (strfindattr e (key_attr k) ''user'')
                                 (length (tr_authid (s_tr s2)))\<rparr>;
                       tr2 = tr1\<lparr>tr_authdom :=
                               safecpy e (tr_authdom tr1) (strfindattr e (key_attr k) ''dom'')
                                 (length (tr_authdom tr1))\<rparr>;
                       tr3 = tr2\<lparr>tr_chal := memmove (tr_chal tr2) 0 rnd (length (tr_chal tr2))\<rparr>;
                       s3 = s2\<lparr>s_tr := tr3, s_key := Some k\<rparr>
                   in
                   if s_vers s3 = 1 then
                     (RpcOk, fss1\<lparr>phase := SNeedChal, ps := s3\<rparr>)
                   else if s_vers s3 = 2 then
                     (RpcOk, fss1\<lparr>phase := SHaveTreq,
                                  ps := s3\<lparr>s_cchal :=
                                          memmove (s_cchal s3) 0 (tr_chal (s_tr s3)) (CHALLEN e)\<rparr>\<rparr>)
                   else (RpcOk, fss1\<lparr>ps := s3\<rparr>)))"

text \<open>
  \<^verbatim>\<open>p9skread\<close>. \<open>a\<close> is the caller's buffer and \<open>n\<close> the capacity passed in \<^verbatim>\<open>*n\<close>; the
  result is the return code, the session, the buffer and \<^verbatim>\<open>*n\<close> afterwards. The required
  size \<open>m\<close> is a sum of size constants and never negative, so C's comparison of the
  unsigned count with it is the comparison of two naturals.
\<close>

definition p9skread :: "env \<Rightarrow> Fsstate \<Rightarrow> bytes \<Rightarrow> nat \<Rightarrow> rpc \<times> Fsstate \<times> bytes \<times> nat" where
  "p9skread e fss a n =
     (let s = ps fss in
      case phase fss of
        CHaveChal \<Rightarrow>
          (let m = CHALLEN e in
           if n < m then (fst (toosmall fss m), snd (toosmall fss m), a, n)
           else (RpcOk, fss\<lparr>phase := CNeedTreq\<rparr>, memmove a 0 (s_cchal s) m, m))
      | SHaveTreq \<Rightarrow>
          (let m = TICKREQLEN e in
           if n < m then (fst (toosmall fss m), snd (toosmall fss m), a, n)
           else
             (RpcOk, fss\<lparr>phase := SNeedTicket\<rparr>,
              memmove a 0 (convTR2M e (s_tr s)) (length (convTR2M e (s_tr s))), m))
      | CHaveTicket \<Rightarrow>
          (let m = TICKETLEN e + AUTHENTLEN e in
           if n < m then (fst (toosmall fss m), snd (toosmall fss m), a, n)
           else (RpcOk, fss\<lparr>phase := CNeedAuth\<rparr>, memmove a 0 (s_tbuf s) m, m))
      | SHaveAuth \<Rightarrow>
          (let m = AUTHENTLEN e in
           if n < m then (fst (toosmall fss m), snd (toosmall fss m), a, n)
           else
             let sec = des56to64 e (t_key (s_t s));
                 s' = s\<lparr>s_secret := Some sec\<rparr>;
                 ai' = (ai fss)\<lparr>ai_suid := t_suid (s_t s), ai_cuid := t_cuid (s_t s),
                                ai_secret := Some sec, ai_nsecret := 8\<rparr>
             in
             (RpcOk, fss\<lparr>ai := ai', haveai := 1, phase := Established, ps := s'\<rparr>,
              memmove a 0 (drop (TICKETLEN e) (s_tbuf s)) m, m))
      | _ \<Rightarrow> (fst (phaseerror fss ''read''), snd (phaseerror fss ''read''), a, n))"

text \<open>
  \<^verbatim>\<open>p9skwrite\<close>. \<open>g\<close> holds the process-wide staging variables and \<open>ki\<close> the contents of the
  local \<^verbatim>\<open>Keyinfo ki\<close>, which the function never initialises before passing it to
  \<^verbatim>\<open>findkey\<close>. The attribute list built at \<^verbatim>\<open>CNeedTreq\<close> is only freed again.
\<close>

definition p9skwrite ::
  "env \<Rightarrow> Fsstate \<Rightarrow> Globals \<Rightarrow> Keyinfo \<Rightarrow> bytes \<Rightarrow> nat \<Rightarrow> rpc \<times> Fsstate \<times> Globals" where
  "p9skwrite e fss g ki a n =
     (let s = ps fss in
      case phase fss of
        SNeedChal \<Rightarrow>
          (let m = CHALLEN e in
           if n < m then (fst (toosmall fss m), snd (toosmall fss m), g)
           else
             (RpcOk, fss\<lparr>ps := s\<lparr>s_cchal := memmove (s_cchal s) 0 a m\<rparr>, phase := SHaveTreq\<rparr>, g))
      | CNeedTreq \<Rightarrow>
          (let m = TICKREQLEN e in
           if n < m then (fst (toosmall fss m), snd (toosmall fss m), g)
           else
             let s1 = s\<lparr>s_tr := convM2TR e a\<rparr>;
                 s2 = (if s_vers s1 = 2
                       then s1\<lparr>s_cchal := memmove (s_cchal s1) 0 (tr_chal (s_tr s1)) (CHALLEN e)\<rparr>
                       else s1);
                 at = setattr e (delattr e (copyattr e (attr fss)) ''role'') ''proto=p9sk1'';
                 found = findkey e ki ''role=client dom=%q %s''
                           [tr_authdom (s_tr s2), keyprompt P9sk1];
                 s3 = s2\<lparr>s_key := snd found\<rparr>
             in
             if fst found \<noteq> RpcOk
             then (fst (failure (fss\<lparr>ps := s3\<rparr>)), snd (failure (fss\<lparr>ps := s3\<rparr>)), g)
             else
               let got = gettickets e s3 (trbuf g) (tbuf g);
                   g1 = g\<lparr>trbuf := fst (snd got), tbuf := snd (snd got)\<rparr>
               in
               if fst got < 0
               then (fst (failure (fss\<lparr>ps := s3\<rparr>)), snd (failure (fss\<lparr>ps := s3\<rparr>)), g1)
               else
                 let s4 = s3\<lparr>s_tbuf :=
                               memmove (s_tbuf s3) 0 (drop (TICKETLEN e) (tbuf g1)) (TICKETLEN e)\<rparr>;
                     au = (auth g1)\<lparr>a_num := AuthAc\<rparr>;
                     out = convA2M e au (t_key (s_t s4));
                     s5 = s4\<lparr>s_tbuf := memmove (s_tbuf s4) (TICKETLEN e) out (length out)\<rparr>
                 in
                 (RpcOk, fss\<lparr>ps := s5, phase := CHaveTicket\<rparr>, g1\<lparr>auth := au\<rparr>))
      | SNeedTicket \<Rightarrow>
          (let m = TICKETLEN e + AUTHENTLEN e in
           if n < m then (fst (toosmall fss m), snd (toosmall fss m), g)
           else
             (case s_key s of
                None \<Rightarrow> (Fault, fss, g)
              | Some k \<Rightarrow>
                  let s1 = s\<lparr>s_t := convM2T e a (priv k)\<rparr>;
                      au = (convM2A e (drop (TICKETLEN e) a) (t_key (s_t s1)))\<lparr>a_num := AuthAs\<rparr>;
                      out = convA2M e au (t_key (s_t s1));
                      s2 = s1\<lparr>s_tbuf := memmove (s_tbuf s1) (TICKETLEN e) out (length out)\<rparr>
                  in
                  (RpcOk, fss\<lparr>ps := s2, phase := SHaveAuth\<rparr>, g\<lparr>auth := au\<rparr>)))
      | CNeedAuth \<Rightarrow>
          (let m = AUTHENTLEN e in
           if n < m then (fst (toosmall fss m), snd (toosmall fss m), g)
           else
             let au = convM2A e a (t_key (s_t s));
                 ai' = (ai fss)\<lparr>ai_cuid := t_cuid (s_t s), ai_suid := t_suid (s_t s)\<rparr>
             in
             (RpcOk, fss\<lparr>ai := ai', haveai := 1, phase := Established\<rparr>, g\<lparr>auth := au\<rparr>))
      | _ \<Rightarrow> (fst (phaseerror fss ''write''), snd (phaseerror fss ''write''), g))"

text \<open>
  \<^verbatim>\<open>p9skclose\<close> returns nothing and changes no field of \<^verbatim>\<open>fss\<close>; what it does is release
  resources. The log records each release in the order the function performs it.

  The function dereferences \<^verbatim>\<open>fss->ps\<close> at once, so what it does depends on the block that
  pointer leads to: \<open>Live_block\<close> is an allocated \<^verbatim>\<open>State\<close>, whose contents are \<open>ps fss\<close>;
  \<open>Nil_block\<close> is a nil pointer; \<open>Freed_block\<close> is a block already handed to \<^verbatim>\<open>free\<close>. The
  function ends with \<^verbatim>\<open>free(s)\<close> and does not clear \<^verbatim>\<open>fss->ps\<close>, so it leaves the pointer
  at a freed block. Reading through a nil pointer or into a freed block has no defined
  behaviour in C: the model stops there with an error and says nothing about what such a
  call releases.
\<close>

datatype release = Free_secret bytes | Closekey Key | Free_state

datatype block = Nil_block | Live_block | Freed_block

datatype close_error = Nil_dereference | Use_after_free

definition p9skclose ::
  "Fsstate \<Rightarrow> block \<Rightarrow> release list \<Rightarrow> close_error + block \<times> release list" where
  "p9skclose fss b log =
     (case b of
        Nil_block \<Rightarrow> Inl Nil_dereference
      | Freed_block \<Rightarrow> Inl Use_after_free
      | Live_block \<Rightarrow>
          (let s = ps fss;
               log1 = (case s_secret s of None \<Rightarrow> log | Some sec \<Rightarrow> log @ [Free_secret sec]);
               log2 = (case s_key s of None \<Rightarrow> log1 | Some k \<Rightarrow> log1 @ [Closekey k])
           in Inr (Freed_block, log2 @ [Free_state])))"

section \<open>The phase tables and runs of the two operations\<close>

text \<open>
  The tables of sections 4.2 and 4.3 of the specification: the number of bytes a read
  produces and a write consumes in each phase that supports the operation.
\<close>

definition read_size :: "env \<Rightarrow> phase \<Rightarrow> nat option" where
  "read_size e ph =
     (case ph of
        CHaveChal \<Rightarrow> Some (CHALLEN e)
      | SHaveTreq \<Rightarrow> Some (TICKREQLEN e)
      | CHaveTicket \<Rightarrow> Some (TICKETLEN e + AUTHENTLEN e)
      | SHaveAuth \<Rightarrow> Some (AUTHENTLEN e)
      | _ \<Rightarrow> None)"

definition write_size :: "env \<Rightarrow> phase \<Rightarrow> nat option" where
  "write_size e ph =
     (case ph of
        SNeedChal \<Rightarrow> Some (CHALLEN e)
      | CNeedTreq \<Rightarrow> Some (TICKREQLEN e)
      | SNeedTicket \<Rightarrow> Some (TICKETLEN e + AUTHENTLEN e)
      | CNeedAuth \<Rightarrow> Some (AUTHENTLEN e)
      | _ \<Rightarrow> None)"

text \<open>
  The column "bytes produced" of the table of section 4.2, read off the session: the
  local challenge, the marshalled ticket request, the staged ticket and authenticator,
  and the authenticator staged behind the ticket.
\<close>

definition read_payload :: "env \<Rightarrow> Fsstate \<Rightarrow> bytes" where
  "read_payload e fss =
     (case phase fss of
        CHaveChal \<Rightarrow> s_cchal (ps fss)
      | SHaveTreq \<Rightarrow> convTR2M e (s_tr (ps fss))
      | CHaveTicket \<Rightarrow> s_tbuf (ps fss)
      | SHaveAuth \<Rightarrow> drop (TICKETLEN e) (s_tbuf (ps fss))
      | _ \<Rightarrow> [])"

text \<open>
  The fixed sequences of the two roles, and the phases that are still ahead of a given
  phase. The flawed variant enters its role's sequence one step later.
\<close>

definition client_seq :: "phase list" where
  "client_seq = [CHaveChal, CNeedTreq, CHaveTicket, CNeedAuth, Established]"

definition server_seq :: "phase list" where
  "server_seq = [SNeedChal, SHaveTreq, SNeedTicket, SHaveAuth, Established]"

definition phase_seq :: "bool \<Rightarrow> Proto \<Rightarrow> phase list" where
  "phase_seq iscli p =
     (let whole = (if iscli then client_seq else server_seq)
      in if p = P9sk1 then whole else tl whole)"

definition chain :: "phase \<Rightarrow> phase list" where
  "chain ph =
     (case ph of
        CHaveChal \<Rightarrow> client_seq
      | CNeedTreq \<Rightarrow> drop 1 client_seq
      | CHaveTicket \<Rightarrow> drop 2 client_seq
      | CNeedAuth \<Rightarrow> drop 3 client_seq
      | SNeedChal \<Rightarrow> server_seq
      | SHaveTreq \<Rightarrow> drop 1 server_seq
      | SNeedTicket \<Rightarrow> drop 2 server_seq
      | SHaveAuth \<Rightarrow> drop 3 server_seq
      | Established \<Rightarrow> [Established])"

text \<open>
  A caller's use of a session after initialisation: any sequence of reads and writes, each
  with its own buffer (and, for a write, whatever the process-wide variables and the
  uninitialised local hold at that moment). \<open>trace\<close> lists the phase after each call.
\<close>

datatype call = Read bytes nat | Write Globals Keyinfo bytes nat

definition step :: "env \<Rightarrow> Fsstate \<Rightarrow> call \<Rightarrow> Fsstate" where
  "step e fss c =
     (case c of
        Read a n \<Rightarrow> fst (snd (p9skread e fss a n))
      | Write g ki a n \<Rightarrow> fst (snd (p9skwrite e fss g ki a n)))"

fun trace :: "env \<Rightarrow> Fsstate \<Rightarrow> call list \<Rightarrow> phase list" where
  "trace e fss [] = []"
| "trace e fss (c # cs) = phase (step e fss c) # trace e (step e fss c) cs"

text \<open>The array fields of \<^verbatim>\<open>struct State\<close> have the sizes the structure declares.\<close>

definition sized :: "env \<Rightarrow> State \<Rightarrow> bool" where
  "sized e s \<longleftrightarrow>
     length (s_cchal s) = CHALLEN e \<and> length (s_tbuf s) = TICKETLEN e + AUTHENTLEN e"

section \<open>A test double for the collaborators\<close>

text \<open>
  The concrete instances below are evaluated at a stand-in for the collaborators that uses
  the sizes of the Plan 9 wire format (8, 141, 72 and 13 bytes) and a codec that lays the
  fields out in the clear: a tag byte first, the challenge where the format has it, the
  session key in the last seven bytes of a ticket. Its key store knows one server key
  (bob) and one client key (alice) of the domain example.
\<close>

definition mock_tagbyte :: "msgtag \<Rightarrow> 8 word" where
  "mock_tagbyte x = (case x of AuthTreq \<Rightarrow> 1 | AuthAs \<Rightarrow> 66 | AuthAc \<Rightarrow> 67 | AuthTag k \<Rightarrow> of_nat k)"

definition mock_tag :: "bytes \<Rightarrow> msgtag" where
  "mock_tag b = (if take 1 b = [1] then AuthTreq else if take 1 b = [66] then AuthAs
                 else if take 1 b = [67] then AuthAc else AuthTag 0)"

definition mock_key :: "string \<Rightarrow> Key" where
  "mock_key u = \<lparr>key_attr = [(''user'', u), (''dom'', ''example'')], priv = replicate 7 9\<rparr>"

definition mock_env :: env where
  "mock_env =
     \<lparr>CHALLEN = 8, TICKREQLEN = 141, TICKETLEN = 72, AUTHENTLEN = 13,
      isclient = (\<lambda>r. if r = Some ''client'' then 1 else if r = Some ''server'' then 0 else - 1),
      strfindattr = map_of,
      copyattr = (\<lambda>at. at),
      setattr = (\<lambda>at kv. at @ [(takeWhile (\<lambda>c. c \<noteq> CHR ''='') kv, drop 1 (dropWhile (\<lambda>c. c \<noteq> CHR ''='') kv))]),
      delattr = (\<lambda>at k. filter (\<lambda>kv. fst kv \<noteq> k) at),
      mkkeyinfo = (\<lambda>fss at. \<lparr>ki_user = map_of (attr fss) ''user'', ki_attr = at\<rparr>),
      findkey = (\<lambda>ki fmt args.
         if fmt = ''user? dom?'' then (RpcOk, Some (mock_key ''bob''))
         else if args = [''example'', ''user? !password?''] then (RpcOk, Some (mock_key ''alice''))
         else (RpcCode 1, None)),
      safecpy = (\<lambda>dst src n. case src of None \<Rightarrow> dst | Some x \<Rightarrow> take (n - 1) x),
      ticketservice = (\<lambda>tr k.
         Some (64 # take 8 (tr_chal tr) @ replicate 56 0 @ [1, 2, 3, 4, 5, 6, 7] @
               65 # take 8 (tr_chal tr) @ replicate 56 0 @ [1, 2, 3, 4, 5, 6, 7])),
      convTR2M = (\<lambda>tr. mock_tagbyte (tr_type tr) # replicate 76 0 @ take 8 (tr_chal tr) @ replicate 56 0),
      convM2TR = (\<lambda>b. \<lparr>tr_type = mock_tag b, tr_authid = ''bob'', tr_authdom = ''example'',
                        tr_chal = take 8 (drop 77 b), tr_hostid = [], tr_uid = []\<rparr>),
      convM2T = (\<lambda>b k. \<lparr>t_num = AuthTag 64, t_chal = take 8 (drop 1 b), t_cuid = ''alice'',
                         t_suid = ''bob'', t_key = take 7 (drop 65 b)\<rparr>),
      convA2M = (\<lambda>au k. mock_tagbyte (a_num au) # take 8 (a_chal au) @ replicate 4 0),
      convM2A = (\<lambda>b k. \<lparr>a_num = mock_tag b, a_chal = take 8 (drop 1 b)\<rparr>),
      des56to64 = (\<lambda>k. take 7 k @ [0])\<rparr>"

text \<open>
  A zero-filled \<^verbatim>\<open>State\<close> block, as an allocator that clears memory returns it, a session
  record before initialisation, and the staging variables before their first use.
\<close>

definition zero_State :: State where
  "zero_State =
     \<lparr>s_vers = 0, s_key = None,
      s_t = \<lparr>t_num = AuthTag 0, t_chal = replicate 8 0, t_cuid = [], t_suid = [], t_key = replicate 7 0\<rparr>,
      s_tr = \<lparr>tr_type = AuthTag 0, tr_authid = replicate 28 (CHR 0x00), tr_authdom = replicate 48 (CHR 0x00),
              tr_chal = replicate 8 0, tr_hostid = [], tr_uid = []\<rparr>,
      s_cchal = replicate 8 0, s_tbuf = replicate 85 0, s_authkey = replicate 7 0,
      s_secret = None, s_speakfor = 0\<rparr>"

definition new_Fsstate :: "string \<Rightarrow> Fsstate" where
  "new_Fsstate role =
     \<lparr>phase = Established, attr = [(''role'', role)],
      ai = \<lparr>ai_cuid = [], ai_suid = [], ai_secret = None, ai_nsecret = 0\<rparr>,
      haveai = 0, ps = zero_State, phasename = [], maxphase = 0\<rparr>"

definition zero_Globals :: Globals where
  "zero_Globals = \<lparr>auth = \<lparr>a_num = AuthTag 0, a_chal = replicate 8 0\<rparr>, trbuf = [], tbuf = []\<rparr>"

definition no_Keyinfo :: Keyinfo where
  "no_Keyinfo = \<lparr>ki_user = None, ki_attr = []\<rparr>"

text \<open>
  The scenario of section 8 of the specification: a client and a server of the full
  variant are initialised and the four messages are carried from one to the other, each
  write being given exactly the buffer and count the peer's read returned. The first
  function stops before the client's last write and returns the two sessions, the buffer
  and count of the server's last read and the staging variables; the second performs that
  write. Either is \<open>None\<close> as soon as a call returns anything but \<open>RpcOk\<close>.
\<close>

definition handshake_to_last ::
  "env \<Rightarrow> Fsstate \<Rightarrow> Fsstate \<Rightarrow> State \<Rightarrow> State \<Rightarrow> bytes \<Rightarrow> bytes \<Rightarrow> Globals \<Rightarrow> Keyinfo \<Rightarrow> bytes
     \<Rightarrow> (Fsstate \<times> Fsstate \<times> bytes \<times> nat \<times> Globals) option" where
  "handshake_to_last e cfss sfss cs0 ss0 crnd srnd g ki buf =
     (case p9skinit e P9sk1 cfss cs0 crnd of (RpcOk, c0) \<Rightarrow>
     (case p9skinit e P9sk1 sfss ss0 srnd of (RpcOk, s0) \<Rightarrow>
     (case p9skread e c0 buf (length buf) of (RpcOk, c1, m1, n1) \<Rightarrow>
     (case p9skwrite e s0 g ki m1 n1 of (RpcOk, s1, g1) \<Rightarrow>
     (case p9skread e s1 buf (length buf) of (RpcOk, s2, m2, n2) \<Rightarrow>
     (case p9skwrite e c1 g1 ki m2 n2 of (RpcOk, c2, g2) \<Rightarrow>
     (case p9skread e c2 buf (length buf) of (RpcOk, c3, m3, n3) \<Rightarrow>
     (case p9skwrite e s2 g2 ki m3 n3 of (RpcOk, s3, g3) \<Rightarrow>
     (case p9skread e s3 buf (length buf) of (RpcOk, s4, m4, n4) \<Rightarrow> Some (c3, s4, m4, n4, g3)
      | _ \<Rightarrow> None) | _ \<Rightarrow> None) | _ \<Rightarrow> None) | _ \<Rightarrow> None) | _ \<Rightarrow> None)
      | _ \<Rightarrow> None) | _ \<Rightarrow> None) | _ \<Rightarrow> None) | _ \<Rightarrow> None)"

definition handshake ::
  "env \<Rightarrow> Fsstate \<Rightarrow> Fsstate \<Rightarrow> State \<Rightarrow> State \<Rightarrow> bytes \<Rightarrow> bytes \<Rightarrow> Globals \<Rightarrow> Keyinfo \<Rightarrow> bytes
     \<Rightarrow> (Fsstate \<times> Fsstate) option" where
  "handshake e cfss sfss cs0 ss0 crnd srnd g ki buf =
     (case handshake_to_last e cfss sfss cs0 ss0 crnd srnd g ki buf of
        None \<Rightarrow> None
      | Some (c3, s4, m4, n4, g3) \<Rightarrow>
          (case p9skwrite e c3 g3 ki m4 n4 of (RpcOk, c4, g4) \<Rightarrow> Some (c4, s4) | _ \<Rightarrow> None))"

text \<open>
  The two sessions that scenario reaches at the stand-in, written out: the client before
  its last write and the server after its last read.
\<close>

definition mock_client_CNeedAuth :: Fsstate where
  "mock_client_CNeedAuth =
     \<lparr>phase = CNeedAuth, attr = [(''role'', ''client'')],
      ai = \<lparr>ai_cuid = [], ai_suid = [], ai_secret = None, ai_nsecret = 0\<rparr>,
      haveai = 0,
      ps = zero_State
        \<lparr>s_vers := 1, s_key := Some (mock_key ''alice''),
         s_tr := \<lparr>tr_type = AuthTreq, tr_authid = ''bob'', tr_authdom = ''example'',
                  tr_chal = [21, 22, 23, 24, 25, 26, 27, 28], tr_hostid = [], tr_uid = []\<rparr>,
         s_cchal := [11, 12, 13, 14, 15, 16, 17, 18],
         s_tbuf := 65 # [21, 22, 23, 24, 25, 26, 27, 28] @ replicate 56 0 @ [1, 2, 3, 4, 5, 6, 7] @
                   67 # replicate 12 0\<rparr>,
      phasename = phasenames, maxphase = Maxphase\<rparr>"

definition mock_server_Established :: Fsstate where
  "mock_server_Established =
     \<lparr>phase = Established, attr = [(''role'', ''server'')],
      ai = \<lparr>ai_cuid = ''alice'', ai_suid = ''bob'',
             ai_secret = Some [1, 2, 3, 4, 5, 6, 7, 0], ai_nsecret = 8\<rparr>,
      haveai = 1,
      ps = zero_State
        \<lparr>s_vers := 1, s_key := Some (mock_key ''bob''),
         s_t := \<lparr>t_num = AuthTag 64, t_chal = [21, 22, 23, 24, 25, 26, 27, 28],
                 t_cuid = ''alice'', t_suid = ''bob'', t_key = [1, 2, 3, 4, 5, 6, 7]\<rparr>,
         s_tr := \<lparr>tr_type = AuthTreq, tr_authid = ''bob'', tr_authdom = ''example'',
                  tr_chal = [21, 22, 23, 24, 25, 26, 27, 28], tr_hostid = [], tr_uid = []\<rparr>,
         s_cchal := [11, 12, 13, 14, 15, 16, 17, 18],
         s_tbuf := replicate 72 0 @ 66 # replicate 12 0,
         s_secret := Some [1, 2, 3, 4, 5, 6, 7, 0]\<rparr>,
      phasename = phasenames, maxphase = Maxphase\<rparr>"

text \<open>
  The same server one and two steps earlier, before its secret exists, and the sessions of
  the flawed variant right after initialisation, with the ticket request that server
  sends.
\<close>

definition mock_server_SHaveAuth :: Fsstate where
  "mock_server_SHaveAuth =
     mock_server_Established
       \<lparr>phase := SHaveAuth, haveai := 0,
        ai := \<lparr>ai_cuid = [], ai_suid = [], ai_secret = None, ai_nsecret = 0\<rparr>,
        ps := (ps mock_server_Established)\<lparr>s_secret := None\<rparr>\<rparr>"

definition mock_server_SNeedTicket :: Fsstate where
  "mock_server_SNeedTicket =
     mock_server_SHaveAuth
       \<lparr>phase := SNeedTicket,
        ps := (ps mock_server_SHaveAuth)\<lparr>s_t := s_t zero_State, s_tbuf := replicate 85 0\<rparr>\<rparr>"

definition mock_flawed_server :: Fsstate where
  "mock_flawed_server =
     snd (p9skinit mock_env P9sk2 (new_Fsstate ''server'') zero_State
            [21, 22, 23, 24, 25, 26, 27, 28])"

definition mock_flawed_client :: Fsstate where
  "mock_flawed_client =
     snd (p9skinit mock_env P9sk2 (new_Fsstate ''client'') zero_State
            [11, 12, 13, 14, 15, 16, 17, 18])"

definition mock_treq :: bytes where
  "mock_treq = 1 # replicate 76 0 @ [21, 22, 23, 24, 25, 26, 27, 28] @ replicate 56 0"

text \<open>
  A client of the full variant right after initialisation, and a caller that mixes calls
  in and out of order: a write before the first read, a repeated read, a write that is one
  byte short, and the calls that complete the exchange.
\<close>

definition mock_full_client :: Fsstate where
  "mock_full_client =
     snd (p9skinit mock_env P9sk1 (new_Fsstate ''client'') zero_State
            [11, 12, 13, 14, 15, 16, 17, 18])"

definition mock_calls :: "call list" where
  "mock_calls =
     [Write zero_Globals no_Keyinfo mock_treq 141,
      Read (replicate 200 0) 200,
      Read (replicate 200 0) 200,
      Write zero_Globals no_Keyinfo (replicate 140 0) 140,
      Write zero_Globals no_Keyinfo mock_treq 141,
      Read (replicate 200 0) 200,
      Write zero_Globals no_Keyinfo (66 # replicate 12 0) 13]"

section \<open>Properties\<close>

subsection \<open>Buffers\<close>

lemma memmove_length:
  "off + m \<le> length dst \<Longrightarrow> m \<le> length src \<Longrightarrow> length (memmove dst off src m) = length dst"
  by (simp add: memmove_def)

lemma memmove_whole: "length src = m \<Longrightarrow> length dst = m \<Longrightarrow> memmove dst 0 src m = src"
  by (simp add: memmove_def)

subsection \<open>The scenario at the stand-in\<close>

text \<open>
  The run of section 8 reaches the two sessions written out above; the server's last read
  hands the caller the 13 bytes of its authenticator.
\<close>

lemma mock_run_reaches:
  "map_option (\<lambda>(c, s, m, n, g). (c, s, m, n))
     (handshake_to_last mock_env (new_Fsstate ''client'') (new_Fsstate ''server'')
        zero_State zero_State
        [11, 12, 13, 14, 15, 16, 17, 18] [21, 22, 23, 24, 25, 26, 27, 28]
        zero_Globals no_Keyinfo (replicate 200 0))
   = Some (mock_client_CNeedAuth, mock_server_Established, 66 # replicate 199 0, 13)"
  by code_simp

text \<open>
  Run to completion, both sides are in the terminal phase; the server's result holds an
  8-byte secret and the client's holds none.
\<close>

lemma mock_run_secrets:
  "map_option
     (\<lambda>(c, s). (phase c, ai_secret (ai c), ai_nsecret (ai c), s_secret (ps c),
                 phase s, ai_secret (ai s), ai_nsecret (ai s)))
     (handshake mock_env (new_Fsstate ''client'') (new_Fsstate ''server'')
        zero_State zero_State
        [11, 12, 13, 14, 15, 16, 17, 18] [21, 22, 23, 24, 25, 26, 27, 28]
        zero_Globals no_Keyinfo (replicate 200 0))
   = Some (Established, None, 0, None, Established, Some [1, 2, 3, 4, 5, 6, 7, 0], 8)"
  by code_simp

subsection \<open>The session result of the client\<close>

text \<open>
  Claim C1 says that the client's terminal write materialises an 8-byte secret derived
  from the ticket's session key, as the server's terminal read does, so that both results
  carry the same secret. The server's read at \<open>SHaveAuth\<close> allocates the secret, expands the
  key into it and publishes it with length 8. The client's write at \<open>CNeedAuth\<close> does none
  of that: it returns \<open>RpcOk\<close>, enters \<open>Established\<close> and sets \<open>haveai\<close>, and leaves the
  \<^verbatim>\<open>State\<close> block, the result's secret and the secret's length exactly as they were.
\<close>

theorem C1_client_terminal_write_no_secret:
  assumes "phase fss = CNeedAuth" and "AUTHENTLEN e \<le> n"
    and "p9skwrite e fss g ki a n = (r, f, g')"
  shows "r = RpcOk \<and> phase f = Established \<and> haveai f = 1 \<and> ps f = ps fss \<and>
         ai_secret (ai f) = ai_secret (ai fss) \<and> ai_nsecret (ai f) = ai_nsecret (ai fss)"
  using assms by (auto simp add: p9skwrite_def Let_def)

text \<open>
  At the client the scenario reaches, given the authenticator the server produced: the
  write succeeds and the client's result has no secret, while the server's is 8 bytes.
\<close>

theorem C1_client_terminal_write_no_secret_witness:
  "phase mock_client_CNeedAuth = CNeedAuth \<and> AUTHENTLEN mock_env \<le> 13 \<and>
   fst (p9skwrite mock_env mock_client_CNeedAuth zero_Globals no_Keyinfo
          (66 # replicate 199 0) 13) = RpcOk \<and>
   phase (fst (snd (p9skwrite mock_env mock_client_CNeedAuth zero_Globals no_Keyinfo
          (66 # replicate 199 0) 13))) = Established \<and>
   s_secret (ps (fst (snd (p9skwrite mock_env mock_client_CNeedAuth zero_Globals no_Keyinfo
          (66 # replicate 199 0) 13)))) = None \<and>
   ai_secret (ai (fst (snd (p9skwrite mock_env mock_client_CNeedAuth zero_Globals no_Keyinfo
          (66 # replicate 199 0) 13)))) = None \<and>
   ai_nsecret (ai (fst (snd (p9skwrite mock_env mock_client_CNeedAuth zero_Globals no_Keyinfo
          (66 # replicate 199 0) 13)))) = 0 \<and>
   ai_secret (ai mock_server_Established) = Some [1, 2, 3, 4, 5, 6, 7, 0]"
proof -
  let ?W = "p9skwrite mock_env mock_client_CNeedAuth zero_Globals no_Keyinfo
              (66 # replicate 199 0) 13"
  have h1: "phase mock_client_CNeedAuth = CNeedAuth" by (simp add: mock_client_CNeedAuth_def)
  have h2: "AUTHENTLEN mock_env \<le> 13" by (simp add: mock_env_def)
  have h3: "?W = (fst ?W, fst (snd ?W), snd (snd ?W))" by simp
  have h4: "s_secret (ps mock_client_CNeedAuth) = None"
    "ai_secret (ai mock_client_CNeedAuth) = None"
    "ai_nsecret (ai mock_client_CNeedAuth) = 0"
    "ai_secret (ai mock_server_Established) = Some [1, 2, 3, 4, 5, 6, 7, 0]"
    by (simp_all add: mock_client_CNeedAuth_def mock_server_Established_def zero_State_def)
  from C1_client_terminal_write_no_secret [OF h1 h2 h3] h1 h2 h4 show ?thesis by simp
qed

subsection \<open>Peer authenticators\<close>

text \<open>
  Claim C2 as stated (every write that consumes a peer authenticator checks its purpose
  tag and its challenge and fails on a mismatch) does not hold. The client the scenario
  reaches is handed an authenticator that carries the client-asserting tag and a challenge
  other than the client's own: the write returns \<open>RpcOk\<close> and enters the terminal phase.
\<close>

theorem C2_mismatched_authenticator_accepted:
  "a_num (convM2A mock_env (67 # replicate 12 0) (t_key (s_t (ps mock_client_CNeedAuth))))
     = AuthAc \<and>
   a_chal (convM2A mock_env (67 # replicate 12 0) (t_key (s_t (ps mock_client_CNeedAuth))))
     \<noteq> s_cchal (ps mock_client_CNeedAuth) \<and>
   fst (p9skwrite mock_env mock_client_CNeedAuth zero_Globals no_Keyinfo
          (67 # replicate 12 0) 13) = RpcOk \<and>
   phase (fst (snd (p9skwrite mock_env mock_client_CNeedAuth zero_Globals no_Keyinfo
          (67 # replicate 12 0) 13))) = Established"
  by code_simp

text \<open>
  Claim C2, amended: the two writes that consume a peer authenticator (the server's at
  \<open>SNeedTicket\<close>, holding its key, and the client's at \<open>CNeedAuth\<close>) make no check on it.
  Given a buffer of the required size they return \<open>RpcOk\<close> and advance the phase, for
  every buffer content and every codec, hence whatever purpose tag and challenge the
  authenticator decodes to.
\<close>

theorem C2_authenticator_never_checked:
  "(phase fss = SNeedTicket \<and> TICKETLEN e + AUTHENTLEN e \<le> n \<and> s_key (ps fss) \<noteq> None \<longrightarrow>
      fst (p9skwrite e fss g ki a n) = RpcOk \<and>
      phase (fst (snd (p9skwrite e fss g ki a n))) = SHaveAuth) \<and>
   (phase fss = CNeedAuth \<and> AUTHENTLEN e \<le> n \<longrightarrow>
      fst (p9skwrite e fss g ki a n) = RpcOk \<and>
      phase (fst (snd (p9skwrite e fss g ki a n))) = Established)"
  by (auto simp add: p9skwrite_def Let_def)

theorem C2_authenticator_never_checked_witness:
  "phase mock_server_SNeedTicket = SNeedTicket \<and>
   TICKETLEN mock_env + AUTHENTLEN mock_env \<le> 85 \<and>
   s_key (ps mock_server_SNeedTicket) = Some (mock_key ''bob'') \<and>
   fst (p9skwrite mock_env mock_server_SNeedTicket zero_Globals no_Keyinfo
          (s_tbuf (ps mock_client_CNeedAuth)) 85) = RpcOk \<and>
   phase (fst (snd (p9skwrite mock_env mock_server_SNeedTicket zero_Globals no_Keyinfo
          (s_tbuf (ps mock_client_CNeedAuth)) 85))) = SHaveAuth \<and>
   phase mock_client_CNeedAuth = CNeedAuth \<and> AUTHENTLEN mock_env \<le> 13 \<and>
   fst (p9skwrite mock_env mock_client_CNeedAuth zero_Globals no_Keyinfo
          (66 # replicate 12 0) 13) = RpcOk \<and>
   phase (fst (snd (p9skwrite mock_env mock_client_CNeedAuth zero_Globals no_Keyinfo
          (66 # replicate 12 0) 13))) = Established"
proof -
  have s: "phase mock_server_SNeedTicket = SNeedTicket"
     "TICKETLEN mock_env + AUTHENTLEN mock_env \<le> 85"
     "s_key (ps mock_server_SNeedTicket) = Some (mock_key ''bob'')"
    by code_simp+
  have c: "phase mock_client_CNeedAuth = CNeedAuth" "AUTHENTLEN mock_env \<le> 13"
    by code_simp+
  from C2_authenticator_never_checked [of mock_server_SNeedTicket mock_env 85 zero_Globals
         no_Keyinfo "s_tbuf (ps mock_client_CNeedAuth)"] s
  have a: "fst (p9skwrite mock_env mock_server_SNeedTicket zero_Globals no_Keyinfo
          (s_tbuf (ps mock_client_CNeedAuth)) 85) = RpcOk \<and>
   phase (fst (snd (p9skwrite mock_env mock_server_SNeedTicket zero_Globals no_Keyinfo
          (s_tbuf (ps mock_client_CNeedAuth)) 85))) = SHaveAuth" by simp
  from C2_authenticator_never_checked [of mock_client_CNeedAuth mock_env 13 zero_Globals
         no_Keyinfo "66 # replicate 12 0"] c
  have b: "fst (p9skwrite mock_env mock_client_CNeedAuth zero_Globals no_Keyinfo
          (66 # replicate 12 0) 13) = RpcOk \<and>
   phase (fst (snd (p9skwrite mock_env mock_client_CNeedAuth zero_Globals no_Keyinfo
          (66 # replicate 12 0) 13))) = Established" by simp
  from s c a b show ?thesis by blast
qed

subsection \<open>The client's key lookup\<close>

text \<open>
  Claim C3 says that the client's key is resolved with a query built from the session's
  attributes. The write at \<open>CNeedTreq\<close> does build an attribute list from \<^verbatim>\<open>fss->attr\<close>, but
  hands \<^verbatim>\<open>findkey\<close> the local \<^verbatim>\<open>ki\<close> as it found it on the stack, and frees the list. So the
  session's attributes have no part in the lookup, nor in anything else a write does:
  changing them changes nothing of the result but the attribute field itself.
\<close>

theorem C3_write_ignores_session_attributes:
  "p9skwrite e (fss\<lparr>attr := x\<rparr>) g ki a n =
     (fst (p9skwrite e fss g ki a n),
      (fst (snd (p9skwrite e fss g ki a n)))\<lparr>attr := x\<rparr>,
      snd (snd (p9skwrite e fss g ki a n)))"
  by (cases "phase fss")
     (simp_all add: p9skwrite_def Let_def toosmall_def failure_def phaseerror_def
        split: option.splits)

text \<open>
  What the write does with the request: the lookup names the role client and the domain of
  the decoded request, and a failed lookup or a failed ticket acquisition fails the write
  and leaves the phase at \<open>CNeedTreq\<close>.
\<close>

lemma client_write_lookup_fails:
  assumes "phase fss = CNeedTreq" and "TICKREQLEN e \<le> n"
    and "fst (findkey e ki ''role=client dom=%q %s''
                [tr_authdom (convM2TR e a), keyprompt P9sk1]) \<noteq> RpcOk"
  shows "fst (p9skwrite e fss g ki a n) = Failure \<and>
         phase (fst (snd (p9skwrite e fss g ki a n))) = CNeedTreq"
  using assms by (simp add: p9skwrite_def Let_def failure_def)

lemma client_write_acquisition_fails:
  assumes "phase fss = CNeedTreq" and "TICKREQLEN e \<le> n"
    and "findkey e ki ''role=client dom=%q %s''
           [tr_authdom (convM2TR e a), keyprompt P9sk1] = (RpcOk, Some k)"
    and "ticketservice e (convM2TR e a) k = None"
  shows "fst (p9skwrite e fss g ki a n) = Failure \<and>
         phase (fst (snd (p9skwrite e fss g ki a n))) = CNeedTreq"
  using assms by (simp add: p9skwrite_def Let_def failure_def gettickets_def)

subsection \<open>The order of the phases\<close>

lemma chain_simps:
  "chain CHaveChal = CHaveChal # chain CNeedTreq"
  "chain CNeedTreq = CNeedTreq # chain CHaveTicket"
  "chain CHaveTicket = CHaveTicket # chain CNeedAuth"
  "chain CNeedAuth = CNeedAuth # chain Established"
  "chain SNeedChal = SNeedChal # chain SHaveTreq"
  "chain SHaveTreq = SHaveTreq # chain SNeedTicket"
  "chain SNeedTicket = SNeedTicket # chain SHaveAuth"
  "chain SHaveAuth = SHaveAuth # chain Established"
  "chain Established = [Established]"
  by (simp_all add: chain_def client_seq_def server_seq_def)

text \<open>A call leaves the phase where it is or moves it to the next one of its sequence.\<close>

lemma read_phase:
  "phase (fst (snd (p9skread e fss a n))) = phase fss \<or>
   chain (phase fss) = phase fss # chain (phase (fst (snd (p9skread e fss a n))))"
  by (cases "phase fss")
     (simp_all add: p9skread_def Let_def toosmall_def phaseerror_def chain_simps)

lemma write_phase:
  "phase (fst (snd (p9skwrite e fss g ki a n))) = phase fss \<or>
   chain (phase fss) = phase fss # chain (phase (fst (snd (p9skwrite e fss g ki a n))))"
  by (cases "phase fss")
     (simp_all add: p9skwrite_def Let_def toosmall_def phaseerror_def failure_def chain_simps
        split: option.splits)

lemma step_phase:
  "phase (step e fss c) = phase fss \<or>
   chain (phase fss) = phase fss # chain (phase (step e fss c))"
  by (cases c) (simp_all add: step_def read_phase write_phase)

lemma chain_hd: "\<exists>rest. chain ph = ph # rest"
  by (cases ph) (simp_all add: chain_simps)

lemma chain_next_neq: "chain ph = ph # chain q \<Longrightarrow> q \<noteq> ph"
  by (cases ph; cases q) (simp_all add: chain_simps)

lemma trace_prefix: "prefix (remdups_adj (phase fss # trace e fss cs)) (chain (phase fss))"
proof (induction cs arbitrary: fss)
  case Nil
  obtain rest where "chain (phase fss) = phase fss # rest" using chain_hd by blast
  then show ?case by simp
next
  case (Cons c cs)
  let ?f = "step e fss c"
  from step_phase [of e fss c] show ?case
  proof
    assume same: "phase ?f = phase fss"
    with Cons.IH [of ?f] show ?thesis by simp
  next
    assume nxt: "chain (phase fss) = phase fss # chain (phase ?f)"
    then have "phase ?f \<noteq> phase fss" by (rule chain_next_neq)
    with Cons.IH [of ?f] nxt show ?thesis by simp
  qed
qed

text \<open>
  A successful initialisation enters the role's sequence at its head under the full
  variant and one step later under the flawed one.
\<close>

lemma init_phase:
  assumes "p9skinit e p fss s0 rnd = (RpcOk, f)"
  shows "chain (phase f) = phase_seq (isclient e (strfindattr e (attr fss) ''role'') \<noteq> 0) p"
  using assms
  by (cases p)
     (auto simp add: p9skinit_def Let_def failure_def phase_seq_def chain_def
        client_seq_def server_seq_def split: if_splits option.splits)

lemma phase_seq_distinct: "distinct (phase_seq iscli p)"
  by (simp add: phase_seq_def client_seq_def server_seq_def Let_def)

text \<open>
  Claim C4: for every session, the phase advances strictly monotonically along exactly one
  of the fixed per-role, per-variant sequences (the flawed variants start one step
  later), and no reachable execution revisits or skips a phase. After a successful
  initialisation and any sequence of reads and writes, the phases the session has been
  in, repeats of a phase that a failed call left in place removed, are an initial segment
  of the sequence of its role and variant; the members of that sequence are distinct.
\<close>

theorem C4_phases_follow_sequence:
  assumes "p9skinit e p fss s0 rnd = (RpcOk, f)"
  shows "prefix (remdups_adj (phase f # trace e f cs))
           (phase_seq (isclient e (strfindattr e (attr fss) ''role'') \<noteq> 0) p) \<and>
         distinct (phase_seq (isclient e (strfindattr e (attr fss) ''role'') \<noteq> 0) p)"
  using trace_prefix [of f e cs] init_phase [OF assms] phase_seq_distinct by simp

theorem C4_phases_follow_sequence_witness:
  "p9skinit mock_env P9sk1 (new_Fsstate ''client'') zero_State [11, 12, 13, 14, 15, 16, 17, 18]
     = (RpcOk, mock_full_client) \<and>
   phase mock_full_client # trace mock_env mock_full_client mock_calls
     = [CHaveChal, CHaveChal, CNeedTreq, CNeedTreq, CNeedTreq, CHaveTicket, CNeedAuth,
        Established] \<and>
   phase_seq True P9sk1 = [CHaveChal, CNeedTreq, CHaveTicket, CNeedAuth, Established] \<and>
   prefix (remdups_adj (phase mock_full_client # trace mock_env mock_full_client mock_calls))
     (phase_seq True P9sk1)"
proof -
  have i: "p9skinit mock_env P9sk1 (new_Fsstate ''client'') zero_State
             [11, 12, 13, 14, 15, 16, 17, 18] = (RpcOk, mock_full_client)" by code_simp
  have r: "(isclient mock_env (strfindattr mock_env (attr (new_Fsstate ''client'')) ''role'')
             \<noteq> 0) = True"
    by code_simp
  have t: "phase mock_full_client # trace mock_env mock_full_client mock_calls
     = [CHaveChal, CHaveChal, CNeedTreq, CNeedTreq, CNeedTreq, CHaveTicket, CNeedAuth,
        Established]"
    by code_simp
  have q: "phase_seq True P9sk1 = [CHaveChal, CNeedTreq, CHaveTicket, CNeedAuth, Established]"
    by code_simp
  from C4_phases_follow_sequence [OF i, of mock_calls] r
  have "prefix (remdups_adj (phase mock_full_client # trace mock_env mock_full_client mock_calls))
     (phase_seq True P9sk1)" by simp
  with i t q show ?thesis by blast
qed

subsection \<open>Calls out of order and short buffers\<close>

text \<open>
  Claim C5: in a phase that does not support it, a read or a write returns a PhaseError
  and leaves the phase and the rest of the session unchanged (a read also leaves the
  caller's buffer and count, a write the staging variables).
\<close>

theorem C5_out_of_order_is_PhaseError:
  "(read_size e (phase fss) = None \<longrightarrow> p9skread e fss a n = (PhaseError, fss, a, n)) \<and>
   (write_size e (phase fss) = None \<longrightarrow> p9skwrite e fss g ki a n = (PhaseError, fss, g))"
  by (cases "phase fss")
     (simp_all add: read_size_def write_size_def p9skread_def p9skwrite_def phaseerror_def)

theorem C5_out_of_order_is_PhaseError_witness:
  "read_size mock_env (phase mock_client_CNeedAuth) = None \<and>
   p9skread mock_env mock_client_CNeedAuth (replicate 200 0) 200
     = (PhaseError, mock_client_CNeedAuth, replicate 200 0, 200) \<and>
   write_size mock_env (phase mock_server_Established) = None \<and>
   p9skwrite mock_env mock_server_Established zero_Globals no_Keyinfo (replicate 200 0) 200
     = (PhaseError, mock_server_Established, zero_Globals)"
proof -
  have r: "read_size mock_env (phase mock_client_CNeedAuth) = None"
    by (simp add: read_size_def mock_client_CNeedAuth_def)
  have w: "write_size mock_env (phase mock_server_Established) = None"
    by (simp add: write_size_def mock_server_Established_def)
  from C5_out_of_order_is_PhaseError [of mock_env mock_client_CNeedAuth] r
  have "p9skread mock_env mock_client_CNeedAuth (replicate 200 0) 200
     = (PhaseError, mock_client_CNeedAuth, replicate 200 0, 200)" by blast
  moreover from C5_out_of_order_is_PhaseError [of mock_env mock_server_Established] w
  have "p9skwrite mock_env mock_server_Established zero_Globals no_Keyinfo (replicate 200 0) 200
     = (PhaseError, mock_server_Established, zero_Globals)" by blast
  ultimately show ?thesis using r w by simp
qed

text \<open>
  Claim C6: in a phase that supports the operation, a buffer shorter than the phase's
  required size (one byte short in particular) gets a BufferTooSmallError that carries
  exactly the required size, and the phase and the session are unchanged; with a buffer
  that is large enough a read returns \<open>RpcOk\<close>, writes exactly the required number of bytes,
  namely the phase's payload, at the start of the buffer and leaves the rest of the
  buffer as it was, reports that count, and moves to the next phase of the sequence. For
  the last part the session's arrays have their declared sizes and the codec marshals a
  ticket request into \<open>TICKREQLEN\<close> bytes.
\<close>

theorem C6_short_buffer_is_BufferTooSmallError:
  "(read_size e (phase fss) = Some m \<and> n < m \<longrightarrow>
      p9skread e fss a n = (BufferTooSmallError m, fss, a, n)) \<and>
   (write_size e (phase fss) = Some m \<and> n < m \<longrightarrow>
      p9skwrite e fss g ki a n = (BufferTooSmallError m, fss, g)) \<and>
   (read_size e (phase fss) = Some m \<and> m \<le> n \<and> sized e (ps fss) \<and>
    length (convTR2M e (s_tr (ps fss))) = TICKREQLEN e \<longrightarrow>
      fst (p9skread e fss a n) = RpcOk \<and>
      fst (snd (snd (p9skread e fss a n))) = read_payload e fss @ drop m a \<and>
      length (read_payload e fss) = m \<and>
      snd (snd (snd (p9skread e fss a n))) = m \<and>
      chain (phase fss) = phase fss # chain (phase (fst (snd (p9skread e fss a n)))))"
  by (cases "phase fss")
     (auto simp add: read_size_def write_size_def read_payload_def p9skread_def p9skwrite_def
        toosmall_def sized_def memmove_def Let_def chain_simps)

text \<open>
  At the stand-in: the server about to send its authenticator is read with 12 bytes and
  then with 200; the client awaiting that authenticator is written 12 bytes. The
  successful read puts the 13 staged bytes in front of the untouched rest of the buffer.
\<close>

theorem C6_short_buffer_is_BufferTooSmallError_witness:
  "read_size mock_env (phase mock_server_SHaveAuth) = Some 13 \<and>
   p9skread mock_env mock_server_SHaveAuth (replicate 12 0) 12
     = (BufferTooSmallError 13, mock_server_SHaveAuth, replicate 12 0, 12) \<and>
   write_size mock_env (phase mock_client_CNeedAuth) = Some 13 \<and>
   p9skwrite mock_env mock_client_CNeedAuth zero_Globals no_Keyinfo (replicate 12 0) 12
     = (BufferTooSmallError 13, mock_client_CNeedAuth, zero_Globals) \<and>
   sized mock_env (ps mock_server_SHaveAuth) \<and>
   read_payload mock_env mock_server_SHaveAuth = 66 # replicate 12 0 \<and>
   fst (p9skread mock_env mock_server_SHaveAuth (replicate 200 1) 200) = RpcOk \<and>
   fst (snd (snd (p9skread mock_env mock_server_SHaveAuth (replicate 200 1) 200)))
     = (66 # replicate 12 0) @ replicate 187 1 \<and>
   snd (snd (snd (p9skread mock_env mock_server_SHaveAuth (replicate 200 1) 200))) = 13 \<and>
   phase (fst (snd (p9skread mock_env mock_server_SHaveAuth (replicate 200 1) 200)))
     = Established"
proof -
  let ?R = "p9skread mock_env mock_server_SHaveAuth (replicate 200 1) 200"
  have r: "read_size mock_env (phase mock_server_SHaveAuth) = Some 13"
    by (simp add: read_size_def mock_server_SHaveAuth_def mock_env_def)
  have w: "write_size mock_env (phase mock_client_CNeedAuth) = Some 13"
    by (simp add: write_size_def mock_client_CNeedAuth_def mock_env_def)
  have s: "sized mock_env (ps mock_server_SHaveAuth)"
    by (simp add: sized_def mock_server_SHaveAuth_def mock_server_Established_def
          mock_env_def zero_State_def)
  have l: "length (convTR2M mock_env (s_tr (ps mock_server_SHaveAuth))) = TICKREQLEN mock_env"
    by code_simp
  have p: "read_payload mock_env mock_server_SHaveAuth = 66 # replicate 12 0" by code_simp
  have d: "drop 13 (replicate 200 (1 :: 8 word)) = replicate 187 1" by simp
  have ph: "phase mock_server_SHaveAuth = SHaveAuth" by (simp add: mock_server_SHaveAuth_def)
  from C6_short_buffer_is_BufferTooSmallError
         [of mock_env mock_server_SHaveAuth 13 12 "replicate 12 0"] r
  have a: "p9skread mock_env mock_server_SHaveAuth (replicate 12 0) 12
     = (BufferTooSmallError 13, mock_server_SHaveAuth, replicate 12 0, 12)" by simp
  from C6_short_buffer_is_BufferTooSmallError
         [of mock_env mock_client_CNeedAuth 13 12 _ zero_Globals no_Keyinfo] w
  have b: "p9skwrite mock_env mock_client_CNeedAuth zero_Globals no_Keyinfo (replicate 12 0) 12
     = (BufferTooSmallError 13, mock_client_CNeedAuth, zero_Globals)" by simp
  from C6_short_buffer_is_BufferTooSmallError
         [of mock_env mock_server_SHaveAuth 13 200 "replicate 200 1"] r s l
  have c: "fst ?R = RpcOk \<and>
      fst (snd (snd ?R)) = read_payload mock_env mock_server_SHaveAuth @ drop 13 (replicate 200 1) \<and>
      snd (snd (snd ?R)) = 13 \<and>
      chain (phase mock_server_SHaveAuth) = phase mock_server_SHaveAuth # chain (phase (fst (snd ?R)))"
    by simp
  from c ph have e: "phase (fst (snd ?R)) = Established"
    by (cases "phase (fst (snd ?R))") (simp_all add: chain_simps)
  from r w s a b c p d e show ?thesis by simp
qed

subsection \<open>The challenge of the flawed variant\<close>

lemma flawed_client_write:
  assumes "phase fss = CNeedTreq" and "s_vers (ps fss) = 2" and "TICKREQLEN e \<le> n"
    and "length (s_cchal (ps fss)) = CHALLEN e"
    and "length (tr_chal (convM2TR e a)) = CHALLEN e"
  shows "s_tr (ps (fst (snd (p9skwrite e fss g ki a n)))) = convM2TR e a \<and>
         s_cchal (ps (fst (snd (p9skwrite e fss g ki a n)))) = tr_chal (convM2TR e a)"
  using assms
  by (simp add: p9skwrite_def Let_def failure_def memmove_whole split: option.splits)

lemma flawed_server_init:
  assumes "p9skinit e P9sk2 sfss s0 rnd = (RpcOk, f)"
    and "isclient e (strfindattr e (attr sfss) ''role'') = 0"
    and "length (s_cchal s0) = CHALLEN e" and "length (tr_chal (s_tr s0)) = CHALLEN e"
  shows "phase f = SHaveTreq \<and> s_cchal (ps f) = tr_chal (s_tr (ps f))"
  using assms
  by (auto simp add: p9skinit_def Let_def failure_def memmove_def
        split: if_splits option.splits)

lemma flawed_client_init:
  assumes "p9skinit e P9sk2 cfss c0 crnd = (RpcOk, cf)"
    and "isclient e (strfindattr e (attr cfss) ''role'') \<noteq> 0"
  shows "phase cf = CNeedTreq \<and> s_cchal (ps cf) = s_cchal c0"
  using assms
  by (auto simp add: p9skinit_def Let_def failure_def split: if_splits)

text \<open>
  Claim C7: under the flawed variant the client never generates a challenge of its own.
  Once the client has consumed the ticket request (a write at \<open>CNeedTreq\<close> with a buffer of
  the required size, whether or not the key lookup and the ticket acquisition that
  follow succeed) its channel challenge is the challenge of the request it decoded; after
  the server's initialisation the server's channel challenge is the challenge of its own
  ticket request; and the client's initialisation leaves the challenge buffer as it was
  allocated, whatever the random source holds. The challenge arrays have \<open>CHALLEN\<close> bytes.
\<close>

theorem C7_flawed_variant_challenge:
  "(phase fss = CNeedTreq \<and> s_vers (ps fss) = 2 \<and> TICKREQLEN e \<le> n \<and>
    length (s_cchal (ps fss)) = CHALLEN e \<and> length (tr_chal (convM2TR e a)) = CHALLEN e \<longrightarrow>
      s_tr (ps (fst (snd (p9skwrite e fss g ki a n)))) = convM2TR e a \<and>
      s_cchal (ps (fst (snd (p9skwrite e fss g ki a n)))) = tr_chal (convM2TR e a)) \<and>
   (p9skinit e P9sk2 sfss s0 rnd = (RpcOk, f) \<and>
    isclient e (strfindattr e (attr sfss) ''role'') = 0 \<and>
    length (s_cchal s0) = CHALLEN e \<and> length (tr_chal (s_tr s0)) = CHALLEN e \<longrightarrow>
      phase f = SHaveTreq \<and> s_cchal (ps f) = tr_chal (s_tr (ps f))) \<and>
   (p9skinit e P9sk2 cfss c0 crnd = (RpcOk, cf) \<and>
    isclient e (strfindattr e (attr cfss) ''role'') \<noteq> 0 \<longrightarrow>
      phase cf = CNeedTreq \<and> s_cchal (ps cf) = s_cchal c0)"
  using flawed_client_write [of fss e n a g ki] flawed_server_init [of e sfss s0 rnd f]
    flawed_client_init [of e cfss c0 crnd cf]
  by blast

text \<open>
  At the stand-in: the flawed server's challenge copy and its request's challenge are the
  same eight random bytes, its read sends them in the request, and the flawed client,
  whose own buffer was all zero, holds them after its write.
\<close>

theorem C7_flawed_variant_challenge_witness:
  "p9skinit mock_env P9sk2 (new_Fsstate ''server'') zero_State [21, 22, 23, 24, 25, 26, 27, 28]
     = (RpcOk, mock_flawed_server) \<and>
   phase mock_flawed_server = SHaveTreq \<and>
   s_cchal (ps mock_flawed_server) = tr_chal (s_tr (ps mock_flawed_server)) \<and>
   tr_chal (s_tr (ps mock_flawed_server)) = [21, 22, 23, 24, 25, 26, 27, 28] \<and>
   fst (snd (snd (p9skread mock_env mock_flawed_server (replicate 141 0) 141))) = mock_treq \<and>
   p9skinit mock_env P9sk2 (new_Fsstate ''client'') zero_State [11, 12, 13, 14, 15, 16, 17, 18]
     = (RpcOk, mock_flawed_client) \<and>
   phase mock_flawed_client = CNeedTreq \<and>
   s_cchal (ps mock_flawed_client) = s_cchal zero_State \<and>
   tr_chal (convM2TR mock_env mock_treq) = [21, 22, 23, 24, 25, 26, 27, 28] \<and>
   s_cchal (ps (fst (snd (p9skwrite mock_env mock_flawed_client zero_Globals no_Keyinfo
                            mock_treq 141))))
     = tr_chal (convM2TR mock_env mock_treq)"
proof -
  have si: "p9skinit mock_env P9sk2 (new_Fsstate ''server'') zero_State
              [21, 22, 23, 24, 25, 26, 27, 28] = (RpcOk, mock_flawed_server)" by code_simp
  have sr: "isclient mock_env (strfindattr mock_env (attr (new_Fsstate ''server'')) ''role'') = 0"
    by code_simp
  have z: "length (s_cchal zero_State) = CHALLEN mock_env"
     "length (tr_chal (s_tr zero_State)) = CHALLEN mock_env" by code_simp+
  have ci: "p9skinit mock_env P9sk2 (new_Fsstate ''client'') zero_State
              [11, 12, 13, 14, 15, 16, 17, 18] = (RpcOk, mock_flawed_client)" by code_simp
  have cr: "isclient mock_env (strfindattr mock_env (attr (new_Fsstate ''client'')) ''role'') \<noteq> 0"
    by code_simp
  have cw: "phase mock_flawed_client = CNeedTreq" "s_vers (ps mock_flawed_client) = 2"
     "TICKREQLEN mock_env \<le> 141" "length (s_cchal (ps mock_flawed_client)) = CHALLEN mock_env"
     "length (tr_chal (convM2TR mock_env mock_treq)) = CHALLEN mock_env" by code_simp+
  have v: "tr_chal (s_tr (ps mock_flawed_server)) = [21, 22, 23, 24, 25, 26, 27, 28]"
     "fst (snd (snd (p9skread mock_env mock_flawed_server (replicate 141 0) 141))) = mock_treq"
     "tr_chal (convM2TR mock_env mock_treq) = [21, 22, 23, 24, 25, 26, 27, 28]" by code_simp+
  note inst = C7_flawed_variant_challenge
      [of mock_flawed_client mock_env 141 mock_treq zero_Globals no_Keyinfo
          "new_Fsstate ''server''" zero_State "[21, 22, 23, 24, 25, 26, 27, 28]" mock_flawed_server
          "new_Fsstate ''client''" zero_State "[11, 12, 13, 14, 15, 16, 17, 18]" mock_flawed_client]
  from inst si sr z have a: "phase mock_flawed_server = SHaveTreq \<and>
     s_cchal (ps mock_flawed_server) = tr_chal (s_tr (ps mock_flawed_server))" by blast
  from inst ci cr have b: "phase mock_flawed_client = CNeedTreq \<and>
     s_cchal (ps mock_flawed_client) = s_cchal zero_State" by blast
  from inst cw have c: "s_cchal (ps (fst (snd (p9skwrite mock_env mock_flawed_client zero_Globals
     no_Keyinfo mock_treq 141)))) = tr_chal (convM2TR mock_env mock_treq)" by blast
  from si ci a b c v show ?thesis by blast
qed

subsection \<open>Teardown\<close>

text \<open>
  Claim C8 as stated (a session can be closed twice, and the second close releases
  nothing more) does not hold. Closing the server of the scenario releases its secret and
  its key and frees the block, and leaves \<^verbatim>\<open>fss->ps\<close> at the freed block; the second close
  of that session reads the freed block, for which the code has no defined behaviour.
\<close>

theorem C8_second_close_is_use_after_free:
  "p9skclose mock_server_Established Live_block []
     = Inr (Freed_block,
            [Free_secret [1, 2, 3, 4, 5, 6, 7, 0], Closekey (mock_key ''bob''), Free_state]) \<and>
   p9skclose mock_server_Established Freed_block
       [Free_secret [1, 2, 3, 4, 5, 6, 7, 0], Closekey (mock_key ''bob''), Free_state]
     = Inl Use_after_free"
  by code_simp

text \<open>
  Claim C8, amended: a close of a live session frees its derived secret, if it has one,
  and releases its key record, if it holds one, exactly once each, in that order, then
  frees the session block once, and adds nothing else to what was released before.
  Close is not idempotent and promises nothing for a second call: it leaves the session
  pointing at the freed block, so closing the same session again (like closing one whose
  pointer is nil) has no defined behaviour.
\<close>

theorem C8_one_close_releases_once:
  "p9skclose fss Live_block log =
     Inr (Freed_block,
          log @ (case s_secret (ps fss) of None \<Rightarrow> [] | Some x \<Rightarrow> [Free_secret x])
              @ (case s_key (ps fss) of None \<Rightarrow> [] | Some k \<Rightarrow> [Closekey k])
              @ [Free_state]) \<and>
   count_list ((case s_secret (ps fss) of None \<Rightarrow> [] | Some x \<Rightarrow> [Free_secret x])
               @ (case s_key (ps fss) of None \<Rightarrow> [] | Some k \<Rightarrow> [Closekey k])
               @ [Free_state]) (Closekey k')
     = (if s_key (ps fss) = Some k' then 1 else 0) \<and>
   count_list ((case s_secret (ps fss) of None \<Rightarrow> [] | Some x \<Rightarrow> [Free_secret x])
               @ (case s_key (ps fss) of None \<Rightarrow> [] | Some k \<Rightarrow> [Closekey k])
               @ [Free_state]) (Free_secret x')
     = (if s_secret (ps fss) = Some x' then 1 else 0) \<and>
   p9skclose fss Freed_block log = Inl Use_after_free \<and>
   p9skclose fss Nil_block log = Inl Nil_dereference"
  by (auto simp add: p9skclose_def Let_def split: option.splits)

subsection \<open>The server's authenticator\<close>

text \<open>
  Claim C9: in the server's write at \<open>SNeedTicket\<close> the authenticator staged for the next
  read is the authenticator received from the client, re-encoded with only its purpose
  field replaced by the server-asserting tag; every other field, the challenge included,
  is copied through unexamined. Here \<open>incoming\<close> is what the codec decodes from the bytes
  after the ticket, under the session key of the ticket just decrypted with the server's
  key; \<open>staged\<close> is its encoding with the tag replaced. The write stores \<open>staged\<close> behind the
  ticket part of \<^verbatim>\<open>tbuf\<close>, and the following read hands exactly these bytes to the caller.
\<close>

theorem C9_server_authenticator_is_retagged_copy:
  assumes "phase fss = SNeedTicket" and "TICKETLEN e + AUTHENTLEN e \<le> n"
    and "s_key (ps fss) = Some k"
    and "length (s_tbuf (ps fss)) = TICKETLEN e + AUTHENTLEN e"
    and "incoming = convM2A e (drop (TICKETLEN e) a) (t_key (convM2T e a (priv k)))"
    and "staged = convA2M e (incoming\<lparr>a_num := AuthAs\<rparr>) (t_key (convM2T e a (priv k)))"
    and "length staged = AUTHENTLEN e"
    and "p9skwrite e fss g ki a n = (r, f, g')"
  shows "r = RpcOk \<and> phase f = SHaveAuth \<and>
         auth g' = incoming\<lparr>a_num := AuthAs\<rparr> \<and>
         a_chal (auth g') = a_chal incoming \<and>
         s_tbuf (ps f) = take (TICKETLEN e) (s_tbuf (ps fss)) @ staged \<and>
         (\<forall>b m. AUTHENTLEN e \<le> m \<longrightarrow>
            fst (snd (snd (p9skread e f b m))) = staged @ drop (AUTHENTLEN e) b)"
  using assms by (auto simp add: p9skwrite_def p9skread_def Let_def memmove_def)

text \<open>
  At the stand-in the server is written the client's ticket and authenticator of the
  scenario: the authenticator arrives tagged client-asserting with an all-zero challenge
  and leaves tagged server-asserting with the same challenge.
\<close>

theorem C9_server_authenticator_is_retagged_copy_witness:
  "phase mock_server_SNeedTicket = SNeedTicket \<and>
   s_key (ps mock_server_SNeedTicket) = Some (mock_key ''bob'') \<and>
   convM2A mock_env (drop 72 (s_tbuf (ps mock_client_CNeedAuth))) [1, 2, 3, 4, 5, 6, 7]
     = \<lparr>a_num = AuthAc, a_chal = replicate 8 0\<rparr> \<and>
   fst (p9skwrite mock_env mock_server_SNeedTicket zero_Globals no_Keyinfo
          (s_tbuf (ps mock_client_CNeedAuth)) 85) = RpcOk \<and>
   auth (snd (snd (p9skwrite mock_env mock_server_SNeedTicket zero_Globals no_Keyinfo
          (s_tbuf (ps mock_client_CNeedAuth)) 85)))
     = \<lparr>a_num = AuthAs, a_chal = replicate 8 0\<rparr> \<and>
   s_tbuf (ps (fst (snd (p9skwrite mock_env mock_server_SNeedTicket zero_Globals no_Keyinfo
          (s_tbuf (ps mock_client_CNeedAuth)) 85)))) = replicate 72 0 @ 66 # replicate 12 0 \<and>
   fst (snd (snd (p9skread mock_env
      (fst (snd (p9skwrite mock_env mock_server_SNeedTicket zero_Globals no_Keyinfo
          (s_tbuf (ps mock_client_CNeedAuth)) 85))) (replicate 13 1) 13))) = 66 # replicate 12 0"
proof -
  let ?a = "s_tbuf (ps mock_client_CNeedAuth)"
  let ?W = "p9skwrite mock_env mock_server_SNeedTicket zero_Globals no_Keyinfo ?a 85"
  let ?inc = "\<lparr>a_num = AuthAc, a_chal = replicate 8 0\<rparr>"
  have h1: "phase mock_server_SNeedTicket = SNeedTicket" by code_simp
  have h2: "TICKETLEN mock_env + AUTHENTLEN mock_env \<le> 85" by code_simp
  have h3: "s_key (ps mock_server_SNeedTicket) = Some (mock_key ''bob'')" by code_simp
  have h4: "length (s_tbuf (ps mock_server_SNeedTicket)) = TICKETLEN mock_env + AUTHENTLEN mock_env"
    by code_simp
  have k: "t_key (convM2T mock_env ?a (priv (mock_key ''bob''))) = [1, 2, 3, 4, 5, 6, 7]"
    by code_simp
  have d: "drop (TICKETLEN mock_env) ?a = drop 72 ?a" by code_simp
  have i: "convM2A mock_env (drop 72 ?a) [1, 2, 3, 4, 5, 6, 7] = ?inc" by code_simp
  have h5: "?inc = convM2A mock_env (drop (TICKETLEN mock_env) ?a)
      (t_key (convM2T mock_env ?a (priv (mock_key ''bob''))))"
    using k d i by simp
  have s: "convA2M mock_env (?inc\<lparr>a_num := AuthAs\<rparr>) [1, 2, 3, 4, 5, 6, 7] = 66 # replicate 12 0"
    by code_simp
  have h6: "66 # replicate 12 0 = convA2M mock_env (?inc\<lparr>a_num := AuthAs\<rparr>)
      (t_key (convM2T mock_env ?a (priv (mock_key ''bob''))))"
    using k s by simp
  have h7: "length (66 # replicate 12 (0 :: 8 word)) = AUTHENTLEN mock_env" by code_simp
  have h8: "?W = (fst ?W, fst (snd ?W), snd (snd ?W))" by simp
  have t: "take (TICKETLEN mock_env) (s_tbuf (ps mock_server_SNeedTicket)) = replicate 72 0"
    by code_simp
  have m: "AUTHENTLEN mock_env \<le> 13"
    "drop (AUTHENTLEN mock_env) (replicate 13 (1 :: 8 word)) = []"
    by code_simp+
  from C9_server_authenticator_is_retagged_copy [OF h1 h2 h3 h4 h5 h6 h7 h8] h1 h3 i t m
  show ?thesis by simp
qed

subsection \<open>The speak-for field\<close>

lemma read_speakfor:
  "p9skread e (fss\<lparr>ps := (ps fss)\<lparr>s_speakfor := v\<rparr>\<rparr>) a n =
     (case p9skread e fss a n of
        (r, f, a', n') \<Rightarrow> (r, f\<lparr>ps := (ps f)\<lparr>s_speakfor := v\<rparr>\<rparr>, a', n'))"
  by (cases "phase fss") (simp_all add: p9skread_def Let_def toosmall_def phaseerror_def)

lemma write_speakfor:
  "p9skwrite e (fss\<lparr>ps := (ps fss)\<lparr>s_speakfor := v\<rparr>\<rparr>) g ki a n =
     (case p9skwrite e fss g ki a n of
        (r, f, g') \<Rightarrow> (r, f\<lparr>ps := (ps f)\<lparr>s_speakfor := v\<rparr>\<rparr>, g'))"
  by (cases "phase fss")
     (simp_all add: p9skwrite_def Let_def toosmall_def phaseerror_def failure_def gettickets_def
        split: option.splits)

lemma init_speakfor:
  "p9skinit e p fss (s0\<lparr>s_speakfor := v\<rparr>) rnd =
     (case p9skinit e p fss s0 rnd of
        (r, f) \<Rightarrow> (r, if r = RpcOk then f\<lparr>ps := (ps f)\<lparr>s_speakfor := v\<rparr>\<rparr> else f))"
  by (cases p) (simp_all add: p9skinit_def Let_def failure_def split: option.splits)

lemma close_speakfor:
  "p9skclose (fss\<lparr>ps := (ps fss)\<lparr>s_speakfor := v\<rparr>\<rparr>) b log = p9skclose fss b log"
  by (cases b) (simp_all add: p9skclose_def Let_def cong: option.case_cong)

lemma read_keeps_speakfor:
  "s_speakfor (ps (fst (snd (p9skread e fss a n)))) = s_speakfor (ps fss)"
  by (cases "phase fss") (simp_all add: p9skread_def Let_def toosmall_def phaseerror_def)

lemma write_keeps_speakfor:
  "s_speakfor (ps (fst (snd (p9skwrite e fss g ki a n)))) = s_speakfor (ps fss)"
  by (cases "phase fss")
     (simp_all add: p9skwrite_def Let_def toosmall_def phaseerror_def failure_def
        split: option.splits)

lemma init_keeps_speakfor:
  "s_speakfor (ps (snd (p9skinit e p fss s0 rnd))) =
     (if fst (p9skinit e p fss s0 rnd) = RpcOk then s_speakfor s0 else s_speakfor (ps fss))"
  by (cases p) (simp_all add: p9skinit_def Let_def failure_def split: option.splits)

text \<open>
  Claim C10: the speak-for field is never read and never written. Initialisation, read
  and write leave it as it was (for a successful initialisation: as the block was
  allocated), and no operation's result depends on it: run on a session whose field holds
  any other value \<open>v\<close>, read, write and initialisation return the same code, the same
  buffers and the same session but for that value, and close has the same outcome and
  performs the same releases.
\<close>

theorem C10_speakfor_untouched:
  "p9skread e (fss\<lparr>ps := (ps fss)\<lparr>s_speakfor := v\<rparr>\<rparr>) a n =
     (case p9skread e fss a n of
        (r, f, a', n') \<Rightarrow> (r, f\<lparr>ps := (ps f)\<lparr>s_speakfor := v\<rparr>\<rparr>, a', n')) \<and>
   p9skwrite e (fss\<lparr>ps := (ps fss)\<lparr>s_speakfor := v\<rparr>\<rparr>) g ki a n =
     (case p9skwrite e fss g ki a n of
        (r, f, g') \<Rightarrow> (r, f\<lparr>ps := (ps f)\<lparr>s_speakfor := v\<rparr>\<rparr>, g')) \<and>
   p9skinit e p fss (s0\<lparr>s_speakfor := v\<rparr>) rnd =
     (case p9skinit e p fss s0 rnd of
        (r, f) \<Rightarrow> (r, if r = RpcOk then f\<lparr>ps := (ps f)\<lparr>s_speakfor := v\<rparr>\<rparr> else f)) \<and>
   p9skclose (fss\<lparr>ps := (ps fss)\<lparr>s_speakfor := v\<rparr>\<rparr>) b log = p9skclose fss b log \<and>
   s_speakfor (ps (fst (snd (p9skread e fss a n)))) = s_speakfor (ps fss) \<and>
   s_speakfor (ps (fst (snd (p9skwrite e fss g ki a n)))) = s_speakfor (ps fss) \<and>
   s_speakfor (ps (snd (p9skinit e p fss s0 rnd))) =
     (if fst (p9skinit e p fss s0 rnd) = RpcOk then s_speakfor s0 else s_speakfor (ps fss))"
  by (intro conjI read_speakfor write_speakfor init_speakfor close_speakfor
        read_keeps_speakfor write_keeps_speakfor init_keeps_speakfor)

end
